theory Spec2Isabelle
  imports Main
begin

section \<open>Data model of \<open>validations/PandasValidation.py\<close>\<close>

text \<open>
  Python exceptions are values. \<open>ValueError\<close> is the class the constructor raises
  itself; the other classes stand for what the collaborators (the pandas readers, the
  validation engine, the body of a \<open>with\<close> block) may raise. Each carries its message.
\<close>

datatype exn =
    ValueError string
  | AttributeError string
  | FileNotFoundError string
  | DataContextError string

text \<open>
  A \<open>pd.DataFrame\<close>: named columns and rows of cells. The module only ever reads its
  \<open>shape\<close> attribute, the pair (number of rows, number of columns).
\<close>

datatype cell = NA | Num int | Str string

datatype dataframe = DataFrame (columns: "string list") (rows: "cell list list")

definition shape :: "dataframe \<Rightarrow> nat \<times> nat" where
  "shape t = (length (rows t), length (columns t))"

text \<open>
  The pandas collaborator: \<open>pd.read_parquet\<close> and \<open>pd.read_csv\<close>. The constructor
  passes its \<open>file_path: Optional[str]\<close> argument to them as it is, so they take a
  \<open>string option\<close>; they return the table or raise.
\<close>

record pandas =
  read_parquet :: "string option \<Rightarrow> exn + dataframe"
  read_csv :: "string option \<Rightarrow> exn + dataframe"

text \<open>
  What the constructor does besides returning: the reader calls (file I/O) and the call
  of \<open>Utils.logger.info\<close>, in the order they happen. The log message is the f-string
  \<open>"Succefully read dataframe. Shape: {self.df.shape}"\<close>: its fixed text and the shape
  it formats.
\<close>

datatype io_event =
    ReadParquet "string option"
  | ReadCsv "string option"
  | LoggerInfo string "nat \<times> nat"

text \<open>
  The attributes of a \<open>PandasValidations\<close> object. \<open>self.context\<close> is assigned by
  \<open>__enter__\<close> only: \<open>None\<close> means the attribute does not exist yet. Its value is a
  reference to an object of the engine, of type \<open>'o\<close>.
\<close>

record 'o session =
  df :: dataframe
  gx_suite_name :: string
  self_context :: "'o option"

section \<open>\<open>PandasValidations.__init__\<close>\<close>

text \<open>
  Lines 47 to 59 of the source. The result is the exception raised or the object
  constructed, together with the I/O events performed.
\<close>

definition finish_init :: "string \<Rightarrow> dataframe \<Rightarrow> io_event list \<Rightarrow> (exn + 'o session) \<times> io_event list" where
  "finish_init expectation_suite_name t evs =
     (Inr \<lparr>df = t, gx_suite_name = expectation_suite_name, self_context = None\<rparr>,
      evs @ [LoggerInfo ''Succefully read dataframe. Shape: '' (shape t)])"

definition init :: "pandas \<Rightarrow> string \<Rightarrow> dataframe option \<Rightarrow> string option \<Rightarrow> string option
    \<Rightarrow> (exn + 'o session) \<times> io_event list" where
  "init pd expectation_suite_name df_arg file_path file_type =
     (if df_arg = None \<and> (file_path = None \<or> file_type = None) then
        (Inl (ValueError ''Either df or file_path and file_type must be provided''), [])
      else if file_type \<notin> set [Some ''parquet'', Some ''csv''] then
        (Inl (ValueError ''file_type must be either parquet or csv''), [])
      else
        (case df_arg of
           None \<Rightarrow>
             (if file_type = Some ''parquet'' then
                (case read_parquet pd file_path of
                   Inl e \<Rightarrow> (Inl e, [ReadParquet file_path])
                 | Inr t \<Rightarrow> finish_init expectation_suite_name t [ReadParquet file_path])
              else
                (case read_csv pd file_path of
                   Inl e \<Rightarrow> (Inl e, [ReadCsv file_path])
                 | Inr t \<Rightarrow> finish_init expectation_suite_name t [ReadCsv file_path]))
         | Some t \<Rightarrow> finish_init expectation_suite_name t []))"

text \<open>
  A configuration error is a \<open>ValueError\<close> raised by the constructor's own checks,
  that is, before any I/O event. (A reader may raise a \<open>ValueError\<close> of its own; that
  one comes after a read event.)
\<close>

definition configuration_error :: "(exn + 'o session) \<times> io_event list \<Rightarrow> bool" where
  "configuration_error r =
     (case fst r of Inl (ValueError m) \<Rightarrow> snd r = [] | _ \<Rightarrow> False)"

text \<open>File I/O is a reader call among the events.\<close>

fun is_file_read :: "io_event \<Rightarrow> bool" where
  "is_file_read (ReadParquet p) = True"
| "is_file_read (ReadCsv p) = True"
| "is_file_read (LoggerInfo m s) = False"

section \<open>The validation engine as a collaborator\<close>

text \<open>
  \<open>great_expectations\<close> is a third-party library. The module uses seven of its
  operations; each runs on the engine's state \<open>'w\<close> (contexts, their stores, whatever
  backs them), returns an object reference \<open>'o\<close> or raises, and leaves a new engine
  state. \<open>list_expectation_suite_names\<close> is the engine's own query of the suites a
  context lists; the module never calls it, the properties below observe the engine
  through it.
\<close>

record ('w, 'o) gx =
  get_context :: "'w \<Rightarrow> (exn + 'o) \<times> 'w"
  add_or_update_expectation_suite :: "'o \<Rightarrow> string \<Rightarrow> 'w \<Rightarrow> (exn + 'o) \<times> 'w"
  add_pandas :: "'o \<Rightarrow> string \<Rightarrow> 'w \<Rightarrow> (exn + 'o) \<times> 'w"
  add_dataframe_asset :: "'o \<Rightarrow> string \<Rightarrow> 'w \<Rightarrow> (exn + 'o) \<times> 'w"
  build_batch_request :: "'o \<Rightarrow> dataframe \<Rightarrow> 'w \<Rightarrow> (exn + 'o) \<times> 'w"
  get_validator :: "'o \<Rightarrow> 'o \<Rightarrow> string \<Rightarrow> 'w \<Rightarrow> (exn + 'o) \<times> 'w"
  delete_expectation_suite :: "'o \<Rightarrow> string \<Rightarrow> 'w \<Rightarrow> (exn + 'o) \<times> 'w"
  list_expectation_suite_names :: "'o \<Rightarrow> 'w \<Rightarrow> string list"

text \<open>
  The calls the module makes on the engine, with the receiver first and then the
  arguments. The engine state is threaded together with the list of calls made so far.
\<close>

datatype 'o call =
    GetContext
  | AddOrUpdateExpectationSuite 'o string
  | AddPandas 'o string
  | AddDataframeAsset 'o string
  | BuildBatchRequest 'o dataframe
  | GetValidator 'o 'o string
  | DeleteExpectationSuite 'o string

definition invoke :: "'o call \<Rightarrow> ('w \<Rightarrow> (exn + 'o) \<times> 'w) \<Rightarrow> 'w \<times> 'o call list
    \<Rightarrow> (exn + 'o) \<times> 'w \<times> 'o call list" where
  "invoke c f st = (case st of (w, tr) \<Rightarrow> (case f w of (r, w') \<Rightarrow> (r, w', tr @ [c])))"

section \<open>\<open>PandasValidations.__enter__\<close> and \<open>__exit__\<close>\<close>

text \<open>
  Lines 62 to 69. Python evaluates the arguments of \<open>get_validator\<close> before the call,
  so \<open>build_batch_request\<close> runs first. An exception of the engine leaves the method
  at once; \<open>self.context\<close> stays assigned from line 62 on.
\<close>

definition enter :: "('w, 'o) gx \<Rightarrow> 'o session \<Rightarrow> 'w \<times> 'o call list
    \<Rightarrow> (exn + 'o) \<times> 'o session \<times> 'w \<times> 'o call list" where
  "enter eng self st0 =
     (case invoke GetContext (get_context eng) st0 of
        (Inl e, st1) \<Rightarrow> (Inl e, self, st1)
      | (Inr ctx, st1) \<Rightarrow>
          (let self1 = self\<lparr>self_context := Some ctx\<rparr>;
               name = gx_suite_name self1 in
           (case invoke (AddOrUpdateExpectationSuite ctx name)
                   (add_or_update_expectation_suite eng ctx name) st1 of
              (Inl e, st2) \<Rightarrow> (Inl e, self1, st2)
            | (Inr suite, st2) \<Rightarrow>
                (case invoke (AddPandas ctx ''pandas_datasource'')
                        (add_pandas eng ctx ''pandas_datasource'') st2 of
                   (Inl e, st3) \<Rightarrow> (Inl e, self1, st3)
                 | (Inr datasource, st3) \<Rightarrow>
                     (case invoke (AddDataframeAsset datasource ''df_asset'')
                             (add_dataframe_asset eng datasource ''df_asset'') st3 of
                        (Inl e, st4) \<Rightarrow> (Inl e, self1, st4)
                      | (Inr data_asset, st4) \<Rightarrow>
                          (case invoke (BuildBatchRequest data_asset (df self1))
                                  (build_batch_request eng data_asset (df self1)) st4 of
                             (Inl e, st5) \<Rightarrow> (Inl e, self1, st5)
                           | (Inr batch_request, st5) \<Rightarrow>
                               (case invoke (GetValidator ctx batch_request name)
                                       (get_validator eng ctx batch_request name) st5 of
                                  (r, st6) \<Rightarrow> (r, self1, st6))))))))"

text \<open>
  Lines 71 to 73. The three exception arguments are \<open>None\<close> on a normal exit and
  describe the exception otherwise; here an \<open>exn option\<close>. The method has no
  \<open>return\<close>: it returns \<open>None\<close>, which the \<open>with\<close> statement reads as false (do not
  suppress). Reading \<open>self.context\<close> before \<open>__enter__\<close> has assigned it raises
  \<open>AttributeError\<close>.
\<close>

definition exit :: "('w, 'o) gx \<Rightarrow> 'o session \<Rightarrow> exn option \<Rightarrow> 'w \<times> 'o call list
    \<Rightarrow> (exn + bool) \<times> 'o session \<times> 'w \<times> 'o call list" where
  "exit eng self exc st =
     (case self_context self of
        None \<Rightarrow>
          (Inl (AttributeError ''PandasValidations object has no attribute context''), self, st)
      | Some ctx \<Rightarrow>
          (case invoke (DeleteExpectationSuite ctx (gx_suite_name self))
                  (delete_expectation_suite eng ctx (gx_suite_name self)) st of
             (Inl e, st1) \<Rightarrow> (Inl e, self, st1)
           | (Inr r, st1) \<Rightarrow> (Inr False, self, st1)))"

text \<open>
  Python's \<open>with PandasValidations(...) as validator: body\<close>, for an object already
  constructed. If \<open>__enter__\<close> raises, \<open>__exit__\<close> is not called. The body works on the
  engine through the validator, so it is a function of the validator and the engine
  state; it returns a value or raises. If the body raises, \<open>__exit__\<close> gets the
  exception, and the exception is raised again unless \<open>__exit__\<close> returns true; an
  exception of \<open>__exit__\<close> itself replaces it. The statement yields \<open>Some\<close> of the
  body's value, or \<open>None\<close> when an exception was suppressed.
\<close>

definition with_stmt :: "('w, 'o) gx \<Rightarrow> 'o session \<Rightarrow> ('o \<Rightarrow> 'w \<Rightarrow> (exn + 'r) \<times> 'w)
    \<Rightarrow> 'w \<times> 'o call list \<Rightarrow> (exn + 'r option) \<times> 'o session \<times> 'w \<times> 'o call list" where
  "with_stmt eng self body st0 =
     (case enter eng self st0 of
        (Inl e, self1, st1) \<Rightarrow> (Inl e, self1, st1)
      | (Inr validator, self1, w1, tr1) \<Rightarrow>
          (case body validator w1 of
             (Inl e, w2) \<Rightarrow>
               (case exit eng self1 (Some e) (w2, tr1) of
                  (Inl e', self2, st2) \<Rightarrow> (Inl e', self2, st2)
                | (Inr suppress, self2, st2) \<Rightarrow>
                    (if suppress then (Inr None, self2, st2) else (Inl e, self2, st2)))
           | (Inr x, w2) \<Rightarrow>
               (case exit eng self1 None (w2, tr1) of
                  (Inl e', self2, st2) \<Rightarrow> (Inl e', self2, st2)
                | (Inr suppress, self2, st2) \<Rightarrow> (Inr (Some x), self2, st2))))"

section \<open>Example collaborators\<close>

text \<open>
  A three-row, two-column table, and readers over a file system that holds it as
  \<open>people.parquet\<close> and as \<open>people.csv\<close> and nothing else.
\<close>

definition people :: dataframe where
  "people = DataFrame [''Age'', ''Salary'']
     [[Num 18, Num 50000], [Num 25, Num 70000], [Num 30, NA]]"

definition example_pandas :: pandas where
  "example_pandas =
     \<lparr>read_parquet = (\<lambda>p. if p = Some ''people.parquet'' then Inr people
                           else Inl (FileNotFoundError ''No such file or directory'')),
      read_csv = (\<lambda>p. if p = Some ''people.csv'' then Inr people
                       else Inl (FileNotFoundError ''No such file or directory''))\<rparr>"

text \<open>
  An engine to run the module on, following the capability list of section 6 of the
  specification. Its state is the list of the contexts created so far, each with the
  names of its suites and its data sources with their assets; \<open>Context i\<close> refers to
  the \<open>i\<close>-th one. \<open>get_context\<close> creates an empty context; adding a data source
  under a name in use, asking for a validator over a suite that does not exist and
  deleting a suite that does not exist raise.
\<close>

datatype obj =
    PyNone
  | Context nat
  | ExpectationSuite string
  | PandasDatasource nat string
  | DataFrameAsset nat string string
  | BatchRequest nat string string dataframe
  | Validator nat obj string

record context_state =
  suite_names :: "string list"
  datasources :: "(string \<times> string list) list"

type_synonym world = "context_state list"

definition ex_get_context :: "world \<Rightarrow> (exn + obj) \<times> world" where
  "ex_get_context w = (Inr (Context (length w)), w @ [\<lparr>suite_names = [], datasources = []\<rparr>])"

fun ex_add_or_update_expectation_suite :: "obj \<Rightarrow> string \<Rightarrow> world \<Rightarrow> (exn + obj) \<times> world" where
  "ex_add_or_update_expectation_suite (Context i) n w =
     (if i < length w then
        (Inr (ExpectationSuite n),
         w[i := (w ! i)\<lparr>suite_names := n # removeAll n (suite_names (w ! i))\<rparr>])
      else (Inl (DataContextError ''no such context''), w))"
| "ex_add_or_update_expectation_suite _ n w = (Inl (AttributeError ''not a context''), w)"

fun ex_add_pandas :: "obj \<Rightarrow> string \<Rightarrow> world \<Rightarrow> (exn + obj) \<times> world" where
  "ex_add_pandas (Context i) d w =
     (if i < length w \<and> d \<notin> set (map fst (datasources (w ! i))) then
        (Inr (PandasDatasource i d),
         w[i := (w ! i)\<lparr>datasources := datasources (w ! i) @ [(d, [])]\<rparr>])
      else (Inl (DataContextError ''cannot add the datasource''), w))"
| "ex_add_pandas _ d w = (Inl (AttributeError ''not a context''), w)"

fun ex_add_dataframe_asset :: "obj \<Rightarrow> string \<Rightarrow> world \<Rightarrow> (exn + obj) \<times> world" where
  "ex_add_dataframe_asset (PandasDatasource i d) a w =
     (if i < length w then
        (Inr (DataFrameAsset i d a),
         w[i := (w ! i)\<lparr>datasources :=
                 map (\<lambda>(d', as). if d' = d then (d', as @ [a]) else (d', as))
                   (datasources (w ! i))\<rparr>])
      else (Inl (DataContextError ''no such context''), w))"
| "ex_add_dataframe_asset _ a w = (Inl (AttributeError ''not a datasource''), w)"

fun ex_build_batch_request :: "obj \<Rightarrow> dataframe \<Rightarrow> world \<Rightarrow> (exn + obj) \<times> world" where
  "ex_build_batch_request (DataFrameAsset i d a) t w = (Inr (BatchRequest i d a t), w)"
| "ex_build_batch_request _ t w = (Inl (AttributeError ''not a data asset''), w)"

fun ex_get_validator :: "obj \<Rightarrow> obj \<Rightarrow> string \<Rightarrow> world \<Rightarrow> (exn + obj) \<times> world" where
  "ex_get_validator (Context i) b n w =
     (if i < length w \<and> n \<in> set (suite_names (w ! i)) then (Inr (Validator i b n), w)
      else (Inl (DataContextError ''expectation suite not found''), w))"
| "ex_get_validator _ b n w = (Inl (AttributeError ''not a context''), w)"

fun ex_delete_expectation_suite :: "obj \<Rightarrow> string \<Rightarrow> world \<Rightarrow> (exn + obj) \<times> world" where
  "ex_delete_expectation_suite (Context i) n w =
     (if i < length w \<and> n \<in> set (suite_names (w ! i)) then
        (Inr PyNone, w[i := (w ! i)\<lparr>suite_names := removeAll n (suite_names (w ! i))\<rparr>])
      else (Inl (DataContextError ''expectation suite not found''), w))"
| "ex_delete_expectation_suite _ n w = (Inl (AttributeError ''not a context''), w)"

fun ex_list_expectation_suite_names :: "obj \<Rightarrow> world \<Rightarrow> string list" where
  "ex_list_expectation_suite_names (Context i) w =
     (if i < length w then suite_names (w ! i) else [])"
| "ex_list_expectation_suite_names _ w = []"

definition example_gx :: "(world, obj) gx" where
  "example_gx =
     \<lparr>get_context = ex_get_context,
      add_or_update_expectation_suite = ex_add_or_update_expectation_suite,
      add_pandas = ex_add_pandas,
      add_dataframe_asset = ex_add_dataframe_asset,
      build_batch_request = ex_build_batch_request,
      get_validator = ex_get_validator,
      delete_expectation_suite = ex_delete_expectation_suite,
      list_expectation_suite_names = ex_list_expectation_suite_names\<rparr>"

text \<open>The session of the specification's scenario: the table above under the suite name \<open>s1\<close>.\<close>

definition s1_session :: "obj session" where
  "s1_session = \<lparr>df = people, gx_suite_name = ''s1'', self_context = None\<rparr>"

text \<open>
  What running \<open>__enter__\<close> on that session from the empty engine state gives: the
  validator returned, the session afterwards, the calls made and the engine state; and
  the engine state once the suite is deleted again.
\<close>

definition s1_validator :: obj where
  "s1_validator = Validator 0 (BatchRequest 0 ''pandas_datasource'' ''df_asset'' people) ''s1''"

definition s1_entered :: "obj session" where
  "s1_entered = \<lparr>df = people, gx_suite_name = ''s1'', self_context = Some (Context 0)\<rparr>"

definition s1_calls :: "obj call list" where
  "s1_calls =
     [GetContext,
      AddOrUpdateExpectationSuite (Context 0) ''s1'',
      AddPandas (Context 0) ''pandas_datasource'',
      AddDataframeAsset (PandasDatasource 0 ''pandas_datasource'') ''df_asset'',
      BuildBatchRequest (DataFrameAsset 0 ''pandas_datasource'' ''df_asset'') people,
      GetValidator (Context 0) (BatchRequest 0 ''pandas_datasource'' ''df_asset'' people) ''s1'']"

definition world_entered :: world where
  "world_entered =
     [\<lparr>suite_names = [''s1''], datasources = [(''pandas_datasource'', [''df_asset''])]\<rparr>]"

definition world_exited :: world where
  "world_exited =
     [\<lparr>suite_names = [], datasources = [(''pandas_datasource'', [''df_asset''])]\<rparr>]"

section \<open>Properties of the constructor\<close>

lemma init_df_given:
  "file_type \<in> set [Some ''parquet'', Some ''csv''] \<Longrightarrow>
   init pd name (Some t) file_path file_type = finish_init name t []"
  by (simp add: init_def)

text \<open>
  C1. The claim: whenever an in-memory table is given, construction succeeds without file
  I/O and the resolved table is the given one. The code checks \<open>file_type\<close> before it
  looks at \<open>df\<close> again: with a table and no \<open>file_type\<close> (the call of the module's own
  usage example) the constructor raises the \<open>ValueError\<close> of line 50.
\<close>

theorem C1_df_without_file_type_raises:
  "init pd name (Some t) file_path None =
     (Inl (ValueError ''file_type must be either parquet or csv''), [])"
  by (simp add: init_def)

text \<open>
  C2, as stated: a configuration error is raised if and only if \<open>file_type\<close> is given
  and is not \<open>parquet\<close> or \<open>csv\<close>, and none is raised when \<open>file_type\<close> is simply
  absent. It fails: with no table, a path and no \<open>file_type\<close> the check of line 47
  raises.
\<close>

theorem C2_counterexample:
  "configuration_error
     (init example_pandas ''s1'' None (Some ''people.csv'') None :: (exn + unit session) \<times> io_event list)
   \<and> (None :: string option) = None"
  by (simp add: init_def configuration_error_def)

text \<open>
  C2, amended. Outside the case of C1 (a table given, no \<open>file_type\<close>), a configuration
  error is raised exactly when \<open>file_type\<close> is given and unrecognised, whatever
  \<open>file_path\<close> and the table are, or when the table is absent and \<open>file_path\<close> or
  \<open>file_type\<close> is absent.
\<close>

theorem C2_configuration_error_iff:
  assumes "\<not> (df_arg \<noteq> None \<and> file_type = None)"
  shows "configuration_error
           (init pd name df_arg file_path file_type :: (exn + 'o session) \<times> io_event list) \<longleftrightarrow>
           (\<exists>f. file_type = Some f \<and> f \<notin> set [''parquet'', ''csv''])
           \<or> (df_arg = None \<and> (file_path = None \<or> file_type = None))"
proof (cases "df_arg = None \<and> (file_path = None \<or> file_type = None)")
  case True
  then show ?thesis by (simp add: init_def configuration_error_def)
next
  case False
  with assms obtain f where f: "file_type = Some f" by (cases file_type) auto
  show ?thesis
  proof (cases "f \<in> set [''parquet'', ''csv'']")
    case bad: False
    with False f show ?thesis by (auto simp add: init_def configuration_error_def)
  next
    case ok: True
    with False f show ?thesis
      by (auto simp add: init_def configuration_error_def finish_init_def
               split: option.splits sum.splits exn.splits)
  qed
qed

theorem C2_configuration_error_iff_witness:
  "\<not> (Some people \<noteq> None \<and> Some ''xml'' = (None :: string option))
   \<and> configuration_error (init example_pandas ''s1'' (Some people) (Some ''people.csv'') (Some ''xml'')
        :: (exn + unit session) \<times> io_event list)"
proof -
  have h: "\<not> (Some people \<noteq> None \<and> Some ''xml'' = (None :: string option))" by simp
  from C2_configuration_error_iff [where ?'o = unit, OF h, of example_pandas "''s1''" "Some ''people.csv''"]
  show ?thesis by simp
qed

text \<open>
  C3. With no table, and \<open>file_path\<close> or \<open>file_type\<close> absent, the constructor raises
  the \<open>ValueError\<close> of line 48 and performs no I/O.
\<close>

theorem C3_no_source_raises:
  assumes "df_arg = None" and "file_path = None \<or> file_type = None"
  shows "(init pd name df_arg file_path file_type :: (exn + 'o session) \<times> io_event list) =
           (Inl (ValueError ''Either df or file_path and file_type must be provided''), [])"
  using assms by (simp add: init_def)

theorem C3_no_source_raises_witness:
  "(None :: dataframe option) = None \<and> (Some ''people.csv'' = None \<or> (None :: string option) = None)
   \<and> (init example_pandas ''s1'' None (Some ''people.csv'') None :: (exn + unit session) \<times> io_event list) =
       (Inl (ValueError ''Either df or file_path and file_type must be provided''), [])"
proof -
  have h1: "(None :: dataframe option) = None"
    and h2: "Some ''people.csv'' = None \<or> (None :: string option) = None"
    by simp_all
  from C3_no_source_raises [where ?'o = unit, OF h1 h2, of example_pandas "''s1''"]
  show ?thesis by simp
qed

text \<open>
  C7. With no table, a path and a recognised \<open>file_type\<close>, the constructor calls the
  Parquet reader for \<open>parquet\<close> and the CSV reader for \<open>csv\<close>, on the path given and
  on nothing else; what the reader raises is raised, what it returns becomes the table.
\<close>

theorem C7_reader_by_file_type:
  "(init pd name None (Some p) (Some ''parquet'') :: (exn + 'o session) \<times> io_event list) =
     (case read_parquet pd (Some p) of
        Inl e \<Rightarrow> (Inl e, [ReadParquet (Some p)])
      | Inr t \<Rightarrow>
          (Inr \<lparr>df = t, gx_suite_name = name, self_context = None\<rparr>,
           [ReadParquet (Some p), LoggerInfo ''Succefully read dataframe. Shape: '' (shape t)]))
   \<and> (init pd name None (Some p) (Some ''csv'') :: (exn + 'o session) \<times> io_event list) =
     (case read_csv pd (Some p) of
        Inl e \<Rightarrow> (Inl e, [ReadCsv (Some p)])
      | Inr t \<Rightarrow>
          (Inr \<lparr>df = t, gx_suite_name = name, self_context = None\<rparr>,
           [ReadCsv (Some p), LoggerInfo ''Succefully read dataframe. Shape: '' (shape t)]))"
  by (simp add: init_def finish_init_def split: sum.splits)

theorem C7_reader_by_file_type_witness:
  "(init example_pandas ''s1'' None (Some ''people.parquet'') (Some ''parquet'')
      :: (exn + unit session) \<times> io_event list) =
     (Inr \<lparr>df = people, gx_suite_name = ''s1'', self_context = None\<rparr>,
      [ReadParquet (Some ''people.parquet''), LoggerInfo ''Succefully read dataframe. Shape: '' (3, 2)])
   \<and> (init example_pandas ''s1'' None (Some ''people.parquet'') (Some ''csv'')
      :: (exn + unit session) \<times> io_event list) =
     (Inl (FileNotFoundError ''No such file or directory''), [ReadCsv (Some ''people.parquet'')])"
proof -
  have rp: "read_parquet example_pandas (Some ''people.parquet'') = Inr people"
    and rc: "read_csv example_pandas (Some ''people.parquet'') =
               Inl (FileNotFoundError ''No such file or directory'')"
    by (simp_all add: example_pandas_def)
  have sh: "shape people = (3, 2)" by (simp add: shape_def people_def)
  from C7_reader_by_file_type [where ?'o = unit, of example_pandas "''s1''" "''people.parquet''"]
  show ?thesis by (simp add: rp rc sh)
qed

text \<open>
  C10. With a table, a path and a recognised \<open>file_type\<close> all given, construction
  succeeds, the table given is the resolved one and no reader is called: the only event
  is the log entry.
\<close>

theorem C10_df_takes_precedence:
  assumes "file_type \<in> set [''parquet'', ''csv'']"
  shows "(init pd name (Some t) (Some p) (Some file_type) :: (exn + 'o session) \<times> io_event list) =
           (Inr \<lparr>df = t, gx_suite_name = name, self_context = None\<rparr>,
            [LoggerInfo ''Succefully read dataframe. Shape: '' (shape t)])
         \<and> \<not> list_ex is_file_read (snd (init pd name (Some t) (Some p) (Some file_type)
                                          :: (exn + 'o session) \<times> io_event list))"
proof -
  from assms have "Some file_type \<in> set [Some ''parquet'', Some ''csv'']" by auto
  then have "(init pd name (Some t) (Some p) (Some file_type) :: (exn + 'o session) \<times> io_event list)
      = finish_init name t []"
    by (rule init_df_given)
  then show ?thesis by (simp add: finish_init_def)
qed

theorem C10_df_takes_precedence_witness:
  "''csv'' \<in> set [''parquet'', ''csv'']
   \<and> (init example_pandas ''s1'' (Some people) (Some ''missing.csv'') (Some ''csv'')
        :: (exn + unit session) \<times> io_event list) =
       (Inr \<lparr>df = people, gx_suite_name = ''s1'', self_context = None\<rparr>,
        [LoggerInfo ''Succefully read dataframe. Shape: '' (3, 2)])"
proof -
  have sh: "shape people = (3, 2)" by (simp add: shape_def people_def)
  have h: "''csv'' \<in> set [''parquet'', ''csv'']" by simp
  from C10_df_takes_precedence [where ?'o = unit, OF h, of example_pandas "''s1''" people "''missing.csv''"]
  show ?thesis by (simp add: sh)
qed

section \<open>Properties of scoped entry and exit\<close>

lemma enter_df: "df (fst (snd (enter eng self st))) = df self"
  by (simp add: enter_def invoke_def Let_def split: prod.splits sum.splits)

lemma enter_name: "gx_suite_name (fst (snd (enter eng self st))) = gx_suite_name self"
  by (simp add: enter_def invoke_def Let_def split: prod.splits sum.splits)

lemma exit_self: "fst (snd (exit eng self exc st)) = self"
  by (simp add: exit_def invoke_def split: prod.splits sum.splits option.splits)

text \<open>\<open>__exit__\<close> never looks at its exception arguments.\<close>

lemma exit_ignores_exc: "exit eng self exc st = exit eng self None st"
  by (simp add: exit_def)

lemma enter_holds_context:
  assumes "enter eng self (w0, tr0) = (Inr validator, self1, w1, tr1)"
  shows "\<exists>ctx. self1 = self\<lparr>self_context := Some ctx\<rparr>
           \<and> AddOrUpdateExpectationSuite ctx (gx_suite_name self) \<in> set tr1"
  using assms
  by (auto simp add: enter_def invoke_def Let_def split: prod.splits sum.splits)

lemma exit_Some:
  "self_context self = Some ctx \<Longrightarrow>
   delete_expectation_suite eng ctx (gx_suite_name self) w = (r, w') \<Longrightarrow>
   exit eng self exc (w, tr) =
     ((case r of Inl e \<Rightarrow> Inl e | Inr x \<Rightarrow> Inr False), self, w',
      tr @ [DeleteExpectationSuite ctx (gx_suite_name self)])"
  by (simp add: exit_def invoke_def split: sum.splits)

text \<open>
  When the engine's delete call raises, that exception is what the \<open>with\<close> statement
  raises, in place of the one of the body.
\<close>

lemma with_stmt_delete_raises:
  assumes "enter eng self st0 = (Inr validator, self1, w1, tr1)"
      and "body validator w1 = (Inl e, w2)"
      and "self_context self1 = Some ctx"
      and "delete_expectation_suite eng ctx (gx_suite_name self) w2 = (Inl e', w3)"
  shows "with_stmt eng self body st0 =
           (Inl e', self1, w3, tr1 @ [DeleteExpectationSuite ctx (gx_suite_name self)])"
proof -
  have "gx_suite_name self1 = gx_suite_name self"
    using enter_name [of eng self st0] assms(1) by simp
  with assms(3,4) have "exit eng self1 (Some e) (w2, tr1) =
      (Inl e', self1, w3, tr1 @ [DeleteExpectationSuite ctx (gx_suite_name self)])"
    using exit_Some [of self1 ctx eng w2 "Inl e'" w3 "Some e" tr1] by simp
  with assms(1,2) show ?thesis by (simp add: with_stmt_def)
qed

subsection \<open>The example run\<close>

lemma enter_s1:
  "enter example_gx s1_session ([], []) = (Inr s1_validator, s1_entered, world_entered, s1_calls)"
  by (simp add: enter_def invoke_def Let_def example_gx_def ex_get_context_def s1_session_def
        s1_validator_def s1_entered_def world_entered_def s1_calls_def)

lemma delete_s1:
  "delete_expectation_suite example_gx (Context 0) ''s1'' world_entered = (Inr PyNone, world_exited)"
  by (simp add: example_gx_def world_entered_def world_exited_def)

lemma exit_s1:
  "exit example_gx s1_entered exc (world_entered, s1_calls) =
     (Inr False, s1_entered, world_exited, s1_calls @ [DeleteExpectationSuite (Context 0) ''s1''])"
  by (simp add: exit_def invoke_def example_gx_def s1_entered_def world_entered_def world_exited_def)

lemma example_gx_delete_removes:
  "delete_expectation_suite example_gx c n w = (Inr r, w') \<Longrightarrow>
   n \<notin> set (list_expectation_suite_names example_gx c w')"
  by (cases c) (auto simp add: example_gx_def split: if_splits)

subsection \<open>The claims\<close>

text \<open>
  C4. If \<open>__enter__\<close> returned and the body raises \<open>e\<close>, \<open>__exit__\<close> still calls
  \<open>delete_expectation_suite\<close> with the suite name on the context held, and, the engine
  having deleted the suite, the \<open>with\<close> statement raises \<open>e\<close> itself: not suppressed,
  not replaced.
\<close>

theorem C4_body_error_propagates:
  assumes "enter eng self st0 = (Inr validator, self1, w1, tr1)"
      and "body validator w1 = (Inl e, w2)"
      and "self_context self1 = Some ctx"
      and "delete_expectation_suite eng ctx (gx_suite_name self) w2 = (Inr r, w3)"
  shows "with_stmt eng self body st0 =
           (Inl e, self1, w3, tr1 @ [DeleteExpectationSuite ctx (gx_suite_name self)])"
proof -
  have "gx_suite_name self1 = gx_suite_name self"
    using enter_name [of eng self st0] assms(1) by simp
  with assms(3,4) have "exit eng self1 (Some e) (w2, tr1) =
      (Inr False, self1, w3, tr1 @ [DeleteExpectationSuite ctx (gx_suite_name self)])"
    using exit_Some [of self1 ctx eng w2 "Inr r" w3 "Some e" tr1] by simp
  with assms(1,2) show ?thesis by (simp add: with_stmt_def)
qed

theorem C4_body_error_propagates_witness:
  "with_stmt example_gx s1_session (\<lambda>v w. (Inl (ValueError ''boom'') :: exn + unit, w)) ([], []) =
     (Inl (ValueError ''boom''), s1_entered, world_exited,
      s1_calls @ [DeleteExpectationSuite (Context 0) ''s1''])
   \<and> ''s1'' \<notin> set (list_expectation_suite_names example_gx (Context 0) world_exited)"
proof -
  have ctx: "self_context s1_entered = Some (Context 0)" by (simp add: s1_entered_def)
  have del: "delete_expectation_suite example_gx (Context 0) (gx_suite_name s1_session) world_entered
      = (Inr PyNone, world_exited)"
    using delete_s1 by (simp add: s1_session_def)
  have "with_stmt example_gx s1_session (\<lambda>v w. (Inl (ValueError ''boom'') :: exn + unit, w)) ([], []) =
     (Inl (ValueError ''boom''), s1_entered, world_exited,
      s1_calls @ [DeleteExpectationSuite (Context 0) (gx_suite_name s1_session)])"
    by (rule C4_body_error_propagates [OF enter_s1 _ ctx del]) simp
  then show ?thesis by (simp add: s1_session_def example_gx_def world_exited_def)
qed

text \<open>
  C5. \<open>__enter__\<close> followed at once by \<open>__exit__\<close>, both returning: the suite name
  registered on the context by \<open>__enter__\<close> is the one \<open>__exit__\<close> passes to the
  delete call, on the same context, as the last call; so, for an engine whose delete call
  removes the name it is given from the context's list, the context lists no suite of
  that name afterwards.
\<close>

theorem C5_enter_exit_round_trip:
  assumes "enter eng self st0 = (Inr validator, self1, st1)"
      and "exit eng self1 None st1 = (Inr r, self2, w2, tr2)"
      and "\<And>c n w x w'. delete_expectation_suite eng c n w = (Inr x, w') \<Longrightarrow>
             n \<notin> set (list_expectation_suite_names eng c w')"
  shows "\<exists>ctx. self_context self2 = Some ctx
           \<and> AddOrUpdateExpectationSuite ctx (gx_suite_name self) \<in> set tr2
           \<and> last tr2 = DeleteExpectationSuite ctx (gx_suite_name self)
           \<and> gx_suite_name self \<notin> set (list_expectation_suite_names eng ctx w2)"
proof -
  obtain w1 tr1 where st1: "st1 = (w1, tr1)" by (cases st1)
  obtain w0 tr0 where st0: "st0 = (w0, tr0)" by (cases st0)
  from enter_holds_context [of eng self w0 tr0 validator self1 w1 tr1] assms(1) st0 st1
  obtain ctx where ctx: "self1 = self\<lparr>self_context := Some ctx\<rparr>"
    and tr1: "AddOrUpdateExpectationSuite ctx (gx_suite_name self) \<in> set tr1"
    by auto
  from ctx have c1: "self_context self1 = Some ctx" and n1: "gx_suite_name self1 = gx_suite_name self"
    by simp_all
  obtain x w' where del: "delete_expectation_suite eng ctx (gx_suite_name self1) w1 = (x, w')"
    by (cases "delete_expectation_suite eng ctx (gx_suite_name self1) w1")
  from exit_Some [OF c1 del, of None tr1] assms(2) st1
  obtain y where "x = Inr y" and "self2 = self1" and "w2 = w'"
    and "tr2 = tr1 @ [DeleteExpectationSuite ctx (gx_suite_name self1)]"
    by (cases x) auto
  with del assms(3) [of ctx "gx_suite_name self1" w1 y w'] c1 n1 tr1 show ?thesis by auto
qed

theorem C5_enter_exit_round_trip_witness:
  "enter example_gx s1_session ([], []) = (Inr s1_validator, s1_entered, world_entered, s1_calls)
   \<and> exit example_gx s1_entered None (world_entered, s1_calls) =
       (Inr False, s1_entered, world_exited, s1_calls @ [DeleteExpectationSuite (Context 0) ''s1''])
   \<and> ''s1'' \<in> set (list_expectation_suite_names example_gx (Context 0) world_entered)
   \<and> ''s1'' \<notin> set (list_expectation_suite_names example_gx (Context 0) world_exited)"
proof -
  from C5_enter_exit_round_trip [OF enter_s1 exit_s1 example_gx_delete_removes]
  have "''s1'' \<notin> set (list_expectation_suite_names example_gx (Context 0) world_exited)"
    by (simp add: s1_entered_def s1_session_def)
  moreover have "''s1'' \<in> set (list_expectation_suite_names example_gx (Context 0) world_entered)"
    by (simp add: example_gx_def world_entered_def)
  ultimately show ?thesis using enter_s1 exit_s1 by simp
qed

text \<open>
  C6. When \<open>__enter__\<close> returns a validator, it has made exactly these engine calls, each
  on the engine state the one before left: \<open>get_context\<close>; the suite registration under
  the session's suite name on the context obtained; \<open>add_pandas\<close> on that context and
  \<open>add_dataframe_asset\<close> on the data source returned; \<open>build_batch_request\<close> on the
  asset returned, with the session's table; \<open>get_validator\<close> on the context with that
  batch request and the suite name. The validator is the result of the last call, and the
  session holds the context.
\<close>

theorem C6_enter_calls_in_order:
  assumes "enter eng self (w0, tr0) = (Inr validator, self1, w6, tr)"
  shows "\<exists>ctx w1 suite w2 datasource w3 data_asset w4 batch_request w5.
           get_context eng w0 = (Inr ctx, w1)
         \<and> add_or_update_expectation_suite eng ctx (gx_suite_name self) w1 = (Inr suite, w2)
         \<and> add_pandas eng ctx ''pandas_datasource'' w2 = (Inr datasource, w3)
         \<and> add_dataframe_asset eng datasource ''df_asset'' w3 = (Inr data_asset, w4)
         \<and> build_batch_request eng data_asset (df self) w4 = (Inr batch_request, w5)
         \<and> get_validator eng ctx batch_request (gx_suite_name self) w5 = (Inr validator, w6)
         \<and> tr = tr0 @ [GetContext,
                        AddOrUpdateExpectationSuite ctx (gx_suite_name self),
                        AddPandas ctx ''pandas_datasource'',
                        AddDataframeAsset datasource ''df_asset'',
                        BuildBatchRequest data_asset (df self),
                        GetValidator ctx batch_request (gx_suite_name self)]
         \<and> self1 = self\<lparr>self_context := Some ctx\<rparr>"
  using assms
  by (auto simp add: enter_def invoke_def Let_def split: prod.splits sum.splits)

theorem C6_enter_calls_in_order_witness:
  "enter example_gx s1_session ([], []) = (Inr s1_validator, s1_entered, world_entered, s1_calls)
   \<and> (\<exists>ctx datasource data_asset batch_request w5.
         get_validator example_gx ctx batch_request ''s1'' w5 = (Inr s1_validator, world_entered)
       \<and> s1_calls = [GetContext,
                      AddOrUpdateExpectationSuite ctx ''s1'',
                      AddPandas ctx ''pandas_datasource'',
                      AddDataframeAsset datasource ''df_asset'',
                      BuildBatchRequest data_asset people,
                      GetValidator ctx batch_request ''s1'']
       \<and> s1_entered = s1_session\<lparr>self_context := Some ctx\<rparr>)"
proof -
  from C6_enter_calls_in_order [OF enter_s1]
  have "\<exists>ctx datasource data_asset batch_request w5.
         get_validator example_gx ctx batch_request ''s1'' w5 = (Inr s1_validator, world_entered)
       \<and> s1_calls = [GetContext,
                      AddOrUpdateExpectationSuite ctx ''s1'',
                      AddPandas ctx ''pandas_datasource'',
                      AddDataframeAsset datasource ''df_asset'',
                      BuildBatchRequest data_asset people,
                      GetValidator ctx batch_request ''s1'']
       \<and> s1_entered = s1_session\<lparr>self_context := Some ctx\<rparr>"
    by (simp add: s1_session_def) blast
  with enter_s1 show ?thesis by simp
qed

text \<open>
  C8. \<open>__exit__\<close> on a session that holds a context makes one engine call, the deletion
  of the suite of the session's name on that context. The engine state afterwards is the
  one this call leaves, and the session is unchanged: it still holds the context, which
  \<open>__exit__\<close> neither closes nor releases.
\<close>

theorem C8_exit_only_deletes_suite:
  assumes "exit eng self exc (w, tr) = (r, self', w', tr')"
      and "self_context self = Some ctx"
  shows "self' = self
         \<and> tr' = tr @ [DeleteExpectationSuite ctx (gx_suite_name self)]
         \<and> w' = snd (delete_expectation_suite eng ctx (gx_suite_name self) w)"
proof -
  obtain x v where del: "delete_expectation_suite eng ctx (gx_suite_name self) w = (x, v)"
    by (cases "delete_expectation_suite eng ctx (gx_suite_name self) w")
  from exit_Some [OF assms(2) del, of exc tr] assms(1) del show ?thesis by simp
qed

theorem C8_exit_only_deletes_suite_witness:
  "exit example_gx s1_entered None (world_entered, s1_calls) =
     (Inr False, s1_entered, world_exited, s1_calls @ [DeleteExpectationSuite (Context 0) ''s1''])
   \<and> self_context s1_entered = Some (Context 0)
   \<and> world_exited = snd (delete_expectation_suite example_gx (Context 0) ''s1'' world_entered)
   \<and> datasources (world_exited ! 0) = datasources (world_entered ! 0)"
proof -
  have ctx: "self_context s1_entered = Some (Context 0)" by (simp add: s1_entered_def)
  from C8_exit_only_deletes_suite [OF exit_s1 ctx]
  have w: "world_exited = snd (delete_expectation_suite example_gx (Context 0) ''s1'' world_entered)"
    by (simp add: s1_entered_def)
  have d: "datasources (world_exited ! 0) = datasources (world_entered ! 0)"
    by (simp add: world_exited_def world_entered_def)
  from exit_s1 [of None] ctx w d show ?thesis by blast
qed

text \<open>
  C9. The session's table is the one the constructor stored: \<open>__enter__\<close>, \<open>__exit__\<close>
  and a whole \<open>with\<close> statement leave the \<open>df\<close> attribute as it was, whatever the
  engine and the body do and whether they return or raise.
\<close>

theorem C9_df_never_modified:
  "df (fst (snd (enter eng self st))) = df self
   \<and> df (fst (snd (exit eng self exc st))) = df self
   \<and> df (fst (snd (with_stmt eng self body st))) = df self"
proof -
  have e: "df (fst (snd (enter eng self st))) = df self" by (rule enter_df)
  have x: "\<And>s xc t. df (fst (snd (exit eng s xc t))) = df s" by (simp add: exit_self)
  have "df (fst (snd (with_stmt eng self body st))) = df (fst (snd (enter eng self st)))"
    using x by (auto simp add: with_stmt_def split: prod.splits sum.splits)
       (metis fst_conv snd_conv)+
  with e x show ?thesis by simp
qed

theorem C9_df_never_modified_witness:
  "df (fst (snd (enter example_gx s1_session ([], [])))) = people
   \<and> df (fst (snd (exit example_gx s1_entered None (world_entered, s1_calls)))) = people
   \<and> df (fst (snd (with_stmt example_gx s1_session
          (\<lambda>v w. (Inl (ValueError ''boom'') :: exn + unit, w)) ([], [])))) = people"
  using C9_df_never_modified [of example_gx s1_session "([], [])" None
          "\<lambda>v w. (Inl (ValueError ''boom'') :: exn + unit, w)"]
        C9_df_never_modified [of example_gx s1_entered "(world_entered, s1_calls)" None
          "\<lambda>v w. (Inl (ValueError ''boom'') :: exn + unit, w)"]
  by (simp add: s1_session_def s1_entered_def)

end
